theory Spec2Isabelle
  imports Complex_Main "HOL-Library.Monad_Syntax"
begin

section \<open>Python values, dictionaries and errors\<close>

text \<open>
  The values found in the \<^verbatim>\<open>info\<close> payload and in the news items are Python scalars.
  A number is modelled by its exact value, a rational: the numbers Python holds are the
  integers (\<^verbatim>\<open>int\<close>) and the binary64 values (\<^verbatim>\<open>float\<close>), and what is proved below holds
  for every rational. The special floats (NaN, infinities) are outside the model, and so
  are booleans and nested containers as values. Strings are character lists; text beyond
  ASCII is in UTF-8.
\<close>

type_synonym pyfloat = rat

datatype pyval = PNone | PNum pyfloat | PStr string

text \<open>Exceptions raised by the pipeline. pydantic's \<^verbatim>\<open>ValidationError\<close> carries no
  message in the model; \<^verbatim>\<open>TypeError\<close> and \<^verbatim>\<open>OverflowError\<close> are what \<^verbatim>\<open>/\<close> can raise.\<close>

datatype error =
  ValueError string | RuntimeError string | ValidationError | TypeError | OverflowError

text \<open>Python truthiness: \<^verbatim>\<open>None\<close>, zero and the empty string are falsy.\<close>

fun truthy :: "pyval \<Rightarrow> bool" where
  "truthy PNone = False"
| "truthy (PNum x) = (x \<noteq> 0)"
| "truthy (PStr s) = (s \<noteq> [])"

text \<open>\<^verbatim>\<open>a or b\<close> evaluates to \<^verbatim>\<open>a\<close> when \<^verbatim>\<open>a\<close> is truthy and to \<^verbatim>\<open>b\<close> otherwise.\<close>

definition py_or :: "pyval \<Rightarrow> pyval \<Rightarrow> pyval" where
  "py_or a b = (if truthy a then a else b)"

text \<open>A dictionary is an association list read with \<open>map_of\<close>; the empty dictionary is
  the empty list. \<^verbatim>\<open>d.get(k)\<close> is \<^verbatim>\<open>None\<close> for a missing key, \<^verbatim>\<open>d.get(k, v)\<close> is \<^verbatim>\<open>v\<close>.\<close>

type_synonym pydict = "(string \<times> pyval) list"

definition dict_get_default :: "pydict \<Rightarrow> string \<Rightarrow> pyval \<Rightarrow> pyval" where
  "dict_get_default d k v = (case map_of d k of None \<Rightarrow> v | Some x \<Rightarrow> x)"

definition dict_get :: "pydict \<Rightarrow> string \<Rightarrow> pyval" where
  "dict_get d k = dict_get_default d k PNone"

subsection \<open>Float arithmetic\<close>

text \<open>\<^verbatim>\<open>int.bit_length()\<close> of a non-negative integer.\<close>

function bit_length :: "int \<Rightarrow> int" where
  "bit_length n = (if n \<le> 0 then 0 else 1 + bit_length (n div 2))"
  by pat_completeness auto
termination
  by (relation "measure nat") auto

definition pow2 :: "int \<Rightarrow> rat" where
  "pow2 k = (if 0 \<le> k then 2 ^ nat k else 1 / 2 ^ nat (- k))"

text \<open>The exponent \<open>e\<close> with \<open>pow2 e \<le> a < pow2 (e + 1)\<close>, for a positive \<open>a\<close>.\<close>

definition floor_log2 :: "rat \<Rightarrow> int" where
  "floor_log2 a =
     (let (n, d) = quotient_of a;
          k = bit_length n - bit_length d
      in if pow2 k \<le> a then k else k - 1)"

definition round_half_even :: "rat \<Rightarrow> int" where
  "round_half_even x =
     (let f = \<lfloor>x\<rfloor>; d = x - of_int f
      in if d < 1 / 2 then f else if 1 / 2 < d then f + 1 else if even f then f else f + 1)"

text \<open>
  Rounding of an exact value to binary64, to nearest and ties to even: 53 significant
  bits, and no bit below \<open>pow2 (- 1074)\<close>, the smallest subnormal. The exponent is not
  bounded above here; a result of magnitude \<open>2 ^ 1024\<close> or more does not fit a float.
  A float literal such as \<^verbatim>\<open>152.411\<close> denotes \<open>round_double (152411 / 1000)\<close>.
\<close>

definition round_double :: "rat \<Rightarrow> pyfloat" where
  "round_double q =
     (if q = 0 then 0
      else let a = \<bar>q\<bar>; p = max (floor_log2 a - 52) (- 1074);
               r = of_int (round_half_even (a / pow2 p)) * pow2 p
           in if q < 0 then - r else r)"

text \<open>
  \<^verbatim>\<open>x / 100\<close>, true division by the literal \<^verbatim>\<open>100\<close>. For a float \<^verbatim>\<open>x\<close> this is the
  binary64 quotient by \<^verbatim>\<open>100.0\<close>; for an int \<^verbatim>\<open>x\<close> it is the correctly rounded quotient
  of the two integers, and \<^verbatim>\<open>OverflowError\<close> when that is too large for a float. Both are
  the rounded exact quotient. A string or \<^verbatim>\<open>None\<close> operand raises \<^verbatim>\<open>TypeError\<close>.
\<close>

fun py_truediv_100 :: "pyval \<Rightarrow> error + pyval" where
  "py_truediv_100 (PNum x) =
     (let q = round_double (x / 100)
      in if 2 ^ 1024 \<le> \<bar>q\<bar> then Inl OverflowError else Inr (PNum q))"
| "py_truediv_100 PNone = Inl TypeError"
| "py_truediv_100 (PStr s) = Inl TypeError"

subsection \<open>Strings\<close>

text \<open>
  \<^verbatim>\<open>str.upper()\<close>. On ASCII text the letters a to z (codes 97 to 122) move down by 32 and
  every other character stays. Text with characters beyond ASCII is mapped by the
  Unicode case tables, which can change its length; those tables are not modelled, and
  the mapping of such text is the parameter \<open>unicode_upper\<close>.
\<close>

definition isascii :: "string \<Rightarrow> bool" where
  "isascii s = list_all (\<lambda>c. (of_char c :: nat) < 128) s"

definition upper_char :: "char \<Rightarrow> char" where
  "upper_char c =
     (let n = (of_char c :: nat) in if 97 \<le> n \<and> n \<le> 122 then char_of (n - 32) else c)"

definition upper :: "(string \<Rightarrow> string) \<Rightarrow> string \<Rightarrow> string" where
  "upper unicode_upper s = (if isascii s then map upper_char s else unicode_upper s)"

section \<open>config.py\<close>

definition MAX_HEADLINES :: nat where
  "MAX_HEADLINES = 5"

section \<open>agents/schemas.py\<close>

text \<open>
  Field validators of the schema library, in its default (lax) mode: a \<^verbatim>\<open>str\<close> field
  takes a string only; a \<^verbatim>\<open>float\<close> field takes a number, or a string that parses as a
  number. That parser belongs to the library, so it is the parameter \<open>str_as_float\<close> of
  everything below. A failed validator is \<open>None\<close>; the constructor then raises
  \<^verbatim>\<open>ValidationError\<close>.
\<close>

fun validate_str :: "pyval \<Rightarrow> string option" where
  "validate_str (PStr s) = Some s"
| "validate_str PNone = None"
| "validate_str (PNum x) = None"

fun validate_opt_str :: "pyval \<Rightarrow> string option option" where
  "validate_opt_str PNone = Some None"
| "validate_opt_str (PStr s) = Some (Some s)"
| "validate_opt_str (PNum x) = None"

fun validate_float :: "(string \<Rightarrow> pyfloat option) \<Rightarrow> pyval \<Rightarrow> pyfloat option" where
  "validate_float str_as_float (PNum x) = Some x"
| "validate_float str_as_float (PStr s) = str_as_float s"
| "validate_float str_as_float PNone = None"

fun validate_opt_float :: "(string \<Rightarrow> pyfloat option) \<Rightarrow> pyval \<Rightarrow> pyfloat option option" where
  "validate_opt_float str_as_float PNone = Some None"
| "validate_opt_float str_as_float (PNum x) = Some (Some x)"
| "validate_opt_float str_as_float (PStr s) = map_option Some (str_as_float s)"

definition raise_if_invalid :: "'a option \<Rightarrow> error + 'a" where
  "raise_if_invalid r = (case r of None \<Rightarrow> Inl ValidationError | Some x \<Rightarrow> Inr x)"

record FinancialMetrics =
  ticker :: string
  company_name :: string
  current_price :: pyfloat
  pe_ratio :: "pyfloat option"
  forward_pe :: "pyfloat option"
  price_to_book :: "pyfloat option"
  debt_to_equity :: "pyfloat option"
  free_cash_flow :: "pyfloat option"
  market_cap :: "pyfloat option"
  dividend_yield :: "pyfloat option"
  fifty_two_week_high :: "pyfloat option"
  fifty_two_week_low :: "pyfloat option"
  sector :: "string option"
  industry :: "string option"

text \<open>The constructor \<^verbatim>\<open>FinancialMetrics(...)\<close> with the fourteen keyword arguments of
  \<^verbatim>\<open>fetch_scout_report\<close>, in the order of the class.\<close>

definition FinancialMetrics_new ::
  "(string \<Rightarrow> pyfloat option) \<Rightarrow> pyval \<Rightarrow> pyval \<Rightarrow> pyval \<Rightarrow> pyval \<Rightarrow> pyval \<Rightarrow> pyval \<Rightarrow> pyval
     \<Rightarrow> pyval \<Rightarrow> pyval \<Rightarrow> pyval \<Rightarrow> pyval \<Rightarrow> pyval \<Rightarrow> pyval \<Rightarrow> pyval \<Rightarrow> error + FinancialMetrics" where
  "FinancialMetrics_new str_as_float t cn cp pe fpe pb de fcf mc dy hi lo sec ind =
     raise_if_invalid (do {
       t' \<leftarrow> validate_str t;
       cn' \<leftarrow> validate_str cn;
       cp' \<leftarrow> validate_float str_as_float cp;
       pe' \<leftarrow> validate_opt_float str_as_float pe;
       fpe' \<leftarrow> validate_opt_float str_as_float fpe;
       pb' \<leftarrow> validate_opt_float str_as_float pb;
       de' \<leftarrow> validate_opt_float str_as_float de;
       fcf' \<leftarrow> validate_opt_float str_as_float fcf;
       mc' \<leftarrow> validate_opt_float str_as_float mc;
       dy' \<leftarrow> validate_opt_float str_as_float dy;
       hi' \<leftarrow> validate_opt_float str_as_float hi;
       lo' \<leftarrow> validate_opt_float str_as_float lo;
       sec' \<leftarrow> validate_opt_str sec;
       ind' \<leftarrow> validate_opt_str ind;
       Some \<lparr>ticker = t', company_name = cn', current_price = cp', pe_ratio = pe',
         forward_pe = fpe', price_to_book = pb', debt_to_equity = de', free_cash_flow = fcf',
         market_cap = mc', dividend_yield = dy', fifty_two_week_high = hi',
         fifty_two_week_low = lo', sector = sec', industry = ind'\<rparr>
     })"

record NewsHeadline =
  title :: string
  publisher :: string
  link :: "string option"

definition NewsHeadline_new :: "pyval \<Rightarrow> pyval \<Rightarrow> pyval \<Rightarrow> error + NewsHeadline" where
  "NewsHeadline_new t p l =
     raise_if_invalid (do {
       t' \<leftarrow> validate_str t;
       p' \<leftarrow> validate_str p;
       l' \<leftarrow> validate_opt_str l;
       Some \<lparr>title = t', publisher = p', link = l'\<rparr>
     })"

record ScoutReport =
  metrics :: FinancialMetrics
  headlines :: "NewsHeadline list"
  fetch_timestamp :: string

text \<open>
  The three schemas with \<^verbatim>\<open>Field\<close> constraints. Their constructors are modelled on
  arguments of the declared types; what is checked is what the class declares:
  membership in the \<^verbatim>\<open>Literal\<close>, \<^verbatim>\<open>max_length\<close> of a string, \<^verbatim>\<open>min_length\<close> and
  \<^verbatim>\<open>max_length\<close> of a list (its number of items), \<^verbatim>\<open>ge\<close> and \<^verbatim>\<open>le\<close> of a float.
\<close>

record AnalystMemo =
  perspective :: string
  ticker :: string
  summary :: string
  key_points :: "string list"
  risk_reward_assessment :: string
  confidence_in_thesis :: pyfloat

definition PERSPECTIVES :: "string list" where
  "PERSPECTIVES = [''bear'', ''bull'']"

definition AnalystMemo_new ::
  "string \<Rightarrow> string \<Rightarrow> string \<Rightarrow> string list \<Rightarrow> string \<Rightarrow> pyfloat \<Rightarrow> error + AnalystMemo" where
  "AnalystMemo_new p t s kps rr c =
     (if p \<in> set PERSPECTIVES
         \<and> length s \<le> 500
         \<and> 3 \<le> length kps \<and> length kps \<le> 5
         \<and> length rr \<le> 300
         \<and> 0 \<le> c \<and> c \<le> 1
      then Inr \<lparr>perspective = p, ticker = t, summary = s, key_points = kps,
             risk_reward_assessment = rr, confidence_in_thesis = c\<rparr>
      else Inl ValidationError)"

record SynthesizerOutput =
  ticker :: string
  recommendation :: string
  confidence_score :: pyfloat
  synthesis_summary :: string
  key_caveats :: "string list"

definition RECOMMENDATIONS :: "string list" where
  "RECOMMENDATIONS = [''STRONG_BUY'', ''BUY'', ''HOLD'', ''SELL'', ''STRONG_SELL'']"

definition SynthesizerOutput_new ::
  "string \<Rightarrow> string \<Rightarrow> pyfloat \<Rightarrow> string \<Rightarrow> string list \<Rightarrow> error + SynthesizerOutput" where
  "SynthesizerOutput_new t r c s kc =
     (if r \<in> set RECOMMENDATIONS
         \<and> 0 \<le> c \<and> c \<le> 1
         \<and> length s \<le> 600
         \<and> 1 \<le> length kc \<and> length kc \<le> 5
      then Inr \<lparr>ticker = t, recommendation = r, confidence_score = c,
             synthesis_summary = s, key_caveats = kc\<rparr>
      else Inl ValidationError)"

text \<open>\<^verbatim>\<open>FinalRecommendation\<close> repeats the five constrained fields and adds the two memos.
  A memo passed to the constructor is an \<^verbatim>\<open>AnalystMemo\<close> instance already, and the
  library stores an instance of the field's class as it is.\<close>

record FinalRecommendation =
  ticker :: string
  recommendation :: string
  confidence_score :: pyfloat
  synthesis_summary :: string
  key_caveats :: "string list"
  bull_memo :: AnalystMemo
  bear_memo :: AnalystMemo

definition FinalRecommendation_new ::
  "string \<Rightarrow> string \<Rightarrow> pyfloat \<Rightarrow> string \<Rightarrow> string list \<Rightarrow> AnalystMemo \<Rightarrow> AnalystMemo
     \<Rightarrow> error + FinalRecommendation" where
  "FinalRecommendation_new t r c s kc bull bear =
     (if r \<in> set RECOMMENDATIONS
         \<and> 0 \<le> c \<and> c \<le> 1
         \<and> length s \<le> 600
         \<and> 1 \<le> length kc \<and> length kc \<le> 5
      then Inr \<lparr>ticker = t, recommendation = r, confidence_score = c,
             synthesis_summary = s, key_caveats = kc, bull_memo = bull, bear_memo = bear\<rparr>
      else Inl ValidationError)"

section \<open>agents/scout.py\<close>

text \<open>What the data source answers for a ticker: the \<^verbatim>\<open>info\<close> dictionary and the
  \<^verbatim>\<open>news\<close> attribute, a list of dictionaries or \<^verbatim>\<open>None\<close>.\<close>

record yf_Ticker =
  info :: pydict
  news :: "pydict list option"

text \<open>The list comprehension over the news items: an item whose \<^verbatim>\<open>title\<close> is falsy is
  skipped; for any other item a \<^verbatim>\<open>NewsHeadline\<close> is constructed, and a failed
  construction aborts the whole comprehension.\<close>

fun build_headlines :: "pydict list \<Rightarrow> error + NewsHeadline list" where
  "build_headlines [] = Inr []"
| "build_headlines (item # items) =
     (if truthy (dict_get item ''title'') then
        (case NewsHeadline_new (dict_get_default item ''title'' (PStr []))
                (dict_get_default item ''publisher'' (PStr [])) (dict_get item ''link'') of
           Inl e \<Rightarrow> Inl e
         | Inr h \<Rightarrow>
             (case build_headlines items of
                Inl e \<Rightarrow> Inl e
              | Inr hs \<Rightarrow> Inr (h # hs)))
      else build_headlines items)"

text \<open>\<^verbatim>\<open>raw_news = stock.news or []\<close>: an empty list and \<^verbatim>\<open>None\<close> are both falsy.\<close>

definition raw_news :: "yf_Ticker \<Rightarrow> pydict list" where
  "raw_news stock = (case news stock of None \<Rightarrow> [] | Some ns \<Rightarrow> if ns \<noteq> [] then ns else [])"

text \<open>\<^verbatim>\<open>fetch_scout_report(ticker)\<close>. The answer of the data source and the clock reading
  (\<^verbatim>\<open>datetime.now().isoformat()\<close>) are arguments, after the two library parameters.\<close>

definition fetch_scout_report ::
  "(string \<Rightarrow> string) \<Rightarrow> (string \<Rightarrow> pyfloat option) \<Rightarrow> string \<Rightarrow> yf_Ticker \<Rightarrow> string
     \<Rightarrow> error + ScoutReport" where
  "fetch_scout_report unicode_upper str_as_float tkr stock now =
     (let inf = info stock in
      if inf = [] \<or> (dict_get inf ''regularMarketPrice'' = PNone
                     \<and> dict_get inf ''currentPrice'' = PNone)
      then Inl (ValueError (''Invalid ticker or no data available for: '' @ tkr))
      else
        let cur = py_or (dict_get inf ''currentPrice'') (dict_get inf ''regularMarketPrice'') in
        if cur = PNone
        then Inl (ValueError (''Could not determine current price for: '' @ tkr))
        else
          let debt_to_equity_raw = dict_get inf ''debtToEquity'' in
          (case (if debt_to_equity_raw \<noteq> PNone then py_truediv_100 debt_to_equity_raw
                 else Inr PNone) of
             Inl e \<Rightarrow> Inl e
           | Inr dte \<Rightarrow>
               (case FinancialMetrics_new str_as_float
                       (PStr (upper unicode_upper tkr))
                       (py_or (dict_get inf ''longName'')
                          (py_or (dict_get inf ''shortName'') (PStr (upper unicode_upper tkr))))
                       cur
                       (dict_get inf ''trailingPE'')
                       (dict_get inf ''forwardPE'')
                       (dict_get inf ''priceToBook'')
                       dte
                       (dict_get inf ''freeCashflow'')
                       (dict_get inf ''marketCap'')
                       (dict_get inf ''dividendYield'')
                       (dict_get inf ''fiftyTwoWeekHigh'')
                       (dict_get inf ''fiftyTwoWeekLow'')
                       (dict_get inf ''sector'')
                       (dict_get inf ''industry'') of
                  Inl e \<Rightarrow> Inl e
                | Inr m \<Rightarrow>
                    (case build_headlines (take MAX_HEADLINES (raw_news stock)) of
                       Inl e \<Rightarrow> Inl e
                     | Inr hs \<Rightarrow>
                         Inr \<lparr>metrics = m, headlines = hs, fetch_timestamp = now\<rparr>))))"

section \<open>The generation backend\<close>

text \<open>
  \<^verbatim>\<open>client.models.generate_content(...)\<close> either raises (the text of the exception is
  kept) or returns a response whose \<^verbatim>\<open>parsed\<close> attribute is \<^verbatim>\<open>None\<close> or an instance of
  the requested schema. The backend is an argument of the agents: a function from what
  the request is built from (the persona text and the serialised context) to such an
  outcome. Nothing is assumed about the instance it hands back.
\<close>

datatype 'a gen_outcome = CallRaised string | Response "'a option"

section \<open>agents/analyst.py\<close>

definition MUNGER_SYSTEM_PROMPT :: string where
  "MUNGER_SYSTEM_PROMPT =
     ''You are Charlie Munger, legendary investor known for inversion thinking.'' @ [CHR 0x0A] @
     ''Analyze the following stock data with EXTREME SKEPTICISM.'' @ [CHR 0x0A] @
     ''Focus on: hidden risks, excessive debt, accounting red flags, competitive threats, management incompetence, crypto/fad exposure.'' @ [CHR 0x0A] @
     ''Do NOT sugarcoat. Find what could go wrong.''"

definition BUFFETT_SYSTEM_PROMPT :: string where
  "BUFFETT_SYSTEM_PROMPT =
     ''You are Warren Buffett, the Oracle of Omaha.'' @ [CHR 0x0A] @
     ''Analyze the following stock data with a focus on LONG-TERM VALUE.'' @ [CHR 0x0A] @
     ''Focus on: durable competitive advantages (moats), brand power, pricing power, compounding potential, management quality, margin of safety.'' @ [CHR 0x0A] @
     ''Be realistic but identify genuine strengths.''"

text \<open>\<^verbatim>\<open>_generate_memo(report, perspective, system_prompt)\<close>; the two assignments after
  the call are the record update.\<close>

definition generate_memo ::
  "(string \<Rightarrow> ScoutReport \<Rightarrow> AnalystMemo gen_outcome) \<Rightarrow> ScoutReport \<Rightarrow> string \<Rightarrow> string
     \<Rightarrow> error + AnalystMemo" where
  "generate_memo backend report persp system_prompt =
     (case backend system_prompt report of
        CallRaised e \<Rightarrow> Inl (RuntimeError (''Gemini API call failed: '' @ e))
      | Response None \<Rightarrow>
          Inl (RuntimeError (''Gemini returned invalid response for '' @ persp @ '' memo''))
      | Response (Some memo) \<Rightarrow>
          Inr (memo\<lparr>perspective := persp,
                    AnalystMemo.ticker := FinancialMetrics.ticker (metrics report)\<rparr>))"

definition generate_bear_memo ::
  "(string \<Rightarrow> ScoutReport \<Rightarrow> AnalystMemo gen_outcome) \<Rightarrow> ScoutReport \<Rightarrow> error + AnalystMemo" where
  "generate_bear_memo backend report = generate_memo backend report ''bear'' MUNGER_SYSTEM_PROMPT"

definition generate_bull_memo ::
  "(string \<Rightarrow> ScoutReport \<Rightarrow> AnalystMemo gen_outcome) \<Rightarrow> ScoutReport \<Rightarrow> error + AnalystMemo" where
  "generate_bull_memo backend report = generate_memo backend report ''bull'' BUFFETT_SYSTEM_PROMPT"

section \<open>agents/synthesizer.py\<close>

text \<open>In the third instruction \<open>CHR 0x22\<close> is the double quote and the dash is U+2014,
  three bytes in UTF-8.\<close>

definition SYNTHESIZER_SYSTEM_PROMPT :: string where
  "SYNTHESIZER_SYSTEM_PROMPT =
     ''You are a senior investment committee synthesizing two analyst reports.'' @ [CHR 0x0A] @
     ''Your job is to weigh both perspectives and produce a balanced final recommendation.'' @ [CHR 0x0A] @
     [CHR 0x0A] @
     ''CRITICAL INSTRUCTIONS:'' @ [CHR 0x0A] @
     ''- Weight the stronger argument. If evidence strongly favors one side, commit to BUY/SELL.'' @ [CHR 0x0A] @
     ''- Do NOT default to '' @ [CHR 0x22] @ ''HOLD'' @ [CHR 0x22] @
       '' without clear justification'' @ [CHR 0xE2, CHR 0x80, CHR 0x94] @
       ''this is lazy analysis.'' @ [CHR 0x0A] @
     ''- STRONG_BUY/STRONG_SELL require high confidence and clear evidence.'' @ [CHR 0x0A] @
     ''- Identify 3-5 specific caveats the investor must verify independently.''"

text \<open>\<^verbatim>\<open>synthesize(bull, bear, metrics)\<close>.\<close>

definition synthesize ::
  "(string \<Rightarrow> AnalystMemo \<Rightarrow> AnalystMemo \<Rightarrow> FinancialMetrics \<Rightarrow> SynthesizerOutput gen_outcome)
     \<Rightarrow> AnalystMemo \<Rightarrow> AnalystMemo \<Rightarrow> FinancialMetrics \<Rightarrow> error + FinalRecommendation" where
  "synthesize backend bull bear m =
     (case backend SYNTHESIZER_SYSTEM_PROMPT bull bear m of
        CallRaised e \<Rightarrow> Inl (RuntimeError (''Gemini API call failed during synthesis: '' @ e))
      | Response None \<Rightarrow> Inl (RuntimeError ''Gemini returned invalid response for synthesis'')
      | Response (Some synth_output) \<Rightarrow>
          FinalRecommendation_new
            (SynthesizerOutput.ticker synth_output)
            (SynthesizerOutput.recommendation synth_output)
            (SynthesizerOutput.confidence_score synth_output)
            (SynthesizerOutput.synthesis_summary synth_output)
            (SynthesizerOutput.key_caveats synth_output)
            bull bear)"

section \<open>Example inputs\<close>

text \<open>A payload without a live price, and seven news items of which the second has no
  title, the third an empty one and the fifth a title of \<^verbatim>\<open>None\<close>.\<close>

definition example_info :: pydict where
  "example_info =
     [(''currentPrice'', PNone), (''regularMarketPrice'', PNum (12345 / 100)),
      (''shortName'', PStr ''Apple''), (''sector'', PStr ''Technology'')]"

definition example_news :: "pydict list" where
  "example_news =
     [[(''title'', PStr ''A''), (''publisher'', PStr ''P1''), (''link'', PStr ''u1'')],
      [(''publisher'', PStr ''P2'')],
      [(''title'', PStr ''''), (''publisher'', PStr ''P3'')],
      [(''title'', PStr ''B'')],
      [(''title'', PNone), (''publisher'', PStr ''P5'')],
      [(''title'', PStr ''C''), (''publisher'', PStr ''P6'')],
      [(''title'', PStr ''D''), (''publisher'', PStr ''P7'')]]"

definition example_stock :: yf_Ticker where
  "example_stock = \<lparr>info = example_info, news = Some example_news\<rparr>"

definition example_metrics :: FinancialMetrics where
  "example_metrics =
     \<lparr>FinancialMetrics.ticker = ''AAPL'', company_name = ''Apple'', current_price = 12345 / 100,
      pe_ratio = None, forward_pe = None, price_to_book = None,
      debt_to_equity = None, free_cash_flow = None, market_cap = None,
      dividend_yield = None, fifty_two_week_high = None, fifty_two_week_low = None,
      sector = Some ''Technology'', industry = None\<rparr>"

definition example_report :: ScoutReport where
  "example_report =
     \<lparr>metrics = example_metrics,
      headlines = [\<lparr>title = ''A'', publisher = ''P1'', link = Some ''u1''\<rparr>,
                   \<lparr>title = ''B'', publisher = '''', link = None\<rparr>],
      fetch_timestamp = ''2026-01-01T09:30:00''\<rparr>"

text \<open>A parser of numeric strings that accepts nothing: none of the examples stores a
  number as a string.\<close>

definition no_numeric_strings :: "string \<Rightarrow> pyfloat option" where
  "no_numeric_strings s = None"

text \<open>A stand-in for the Unicode case mapping: the tickers of the examples are ASCII, so
  it is never consulted.\<close>

definition no_unicode_case_map :: "string \<Rightarrow> string" where
  "no_unicode_case_map s = s"

definition example_memo :: "string \<Rightarrow> string \<Rightarrow> AnalystMemo" where
  "example_memo p t =
     \<lparr>perspective = p, AnalystMemo.ticker = t, summary = ''s'', key_points = [''k1'', ''k2'', ''k3''],
      risk_reward_assessment = ''r'', confidence_in_thesis = 1 / 2\<rparr>"

text \<open>A backend that answers every request with a memo tagged by it, not by the caller.\<close>

definition stub_memo_backend ::
  "string \<Rightarrow> string \<Rightarrow> string \<Rightarrow> ScoutReport \<Rightarrow> AnalystMemo gen_outcome" where
  "stub_memo_backend p t system_prompt report = Response (Some (example_memo p t))"

definition example_synth_output :: SynthesizerOutput where
  "example_synth_output =
     \<lparr>SynthesizerOutput.ticker = ''MSFT'', SynthesizerOutput.recommendation = ''BUY'',
      SynthesizerOutput.confidence_score = 3 / 4, SynthesizerOutput.synthesis_summary = ''s'',
      SynthesizerOutput.key_caveats = [''c1'']\<rparr>"

definition stub_synth_backend ::
  "string \<Rightarrow> AnalystMemo \<Rightarrow> AnalystMemo \<Rightarrow> FinancialMetrics \<Rightarrow> SynthesizerOutput gen_outcome" where
  "stub_synth_backend system_prompt bull bear m = Response (Some example_synth_output)"

text \<open>Two payloads whose live price is present and zero: one with a regular market price,
  one without.\<close>

definition zero_price_info :: pydict where
  "zero_price_info = [(''currentPrice'', PNum 0), (''regularMarketPrice'', PNum 5)]"

definition zero_price_report :: ScoutReport where
  "zero_price_report =
     \<lparr>metrics =
        \<lparr>FinancialMetrics.ticker = ''AAPL'', company_name = ''AAPL'', current_price = 5,
         pe_ratio = None, forward_pe = None, price_to_book = None, debt_to_equity = None,
         free_cash_flow = None, market_cap = None, dividend_yield = None,
         fifty_two_week_high = None, fifty_two_week_low = None, sector = None,
         industry = None\<rparr>,
      headlines = [], fetch_timestamp = ''2026-01-01T09:30:00''\<rparr>"

definition zero_only_info :: pydict where
  "zero_only_info = [(''currentPrice'', PNum 0)]"

text \<open>The floats written \<^verbatim>\<open>152.411\<close> and \<^verbatim>\<open>1.52411\<close>, as the fractions that
  \<^verbatim>\<open>float.as_integer_ratio()\<close> gives, and a payload with the first as its debt-to-equity
  figure.\<close>

definition float_152_411 :: pyfloat where
  "float_152_411 = 2681242667215487 / 17592186044416"

definition float_1_52411 :: pyfloat where
  "float_1_52411 = 6863981228071647 / 4503599627370496"

definition debt_info :: pydict where
  "debt_info = [(''regularMarketPrice'', PNum 5), (''debtToEquity'', PNum float_152_411)]"

definition debt_report :: ScoutReport where
  "debt_report =
     \<lparr>metrics =
        \<lparr>FinancialMetrics.ticker = ''AAPL'', company_name = ''AAPL'', current_price = 5,
         pe_ratio = None, forward_pe = None, price_to_book = None,
         debt_to_equity = Some float_1_52411,
         free_cash_flow = None, market_cap = None, dividend_yield = None,
         fifty_two_week_high = None, fifty_two_week_low = None, sector = None,
         industry = None\<rparr>,
      headlines = [], fetch_timestamp = ''2026-01-01T09:30:00''\<rparr>"

text \<open>Read from the specification, for comparison with the list comprehension: a raw news
  item has a non-empty title when its \<^verbatim>\<open>title\<close> is a string other than the empty one.\<close>

definition has_nonempty_title :: "pydict \<Rightarrow> bool" where
  "has_nonempty_title item = (case dict_get item ''title'' of PStr s \<Rightarrow> s \<noteq> [] | _ \<Rightarrow> False)"

text \<open>The headline made from an item, as the comprehension constructs it.\<close>

definition headline_of :: "pydict \<Rightarrow> error + NewsHeadline" where
  "headline_of item =
     NewsHeadline_new (dict_get_default item ''title'' (PStr []))
       (dict_get_default item ''publisher'' (PStr [])) (dict_get item ''link'')"

section \<open>What a successful call has done\<close>

lemma raise_if_invalid_Inr: "raise_if_invalid r = Inr x \<longleftrightarrow> r = Some x"
  by (simp add: raise_if_invalid_def split: option.splits)

lemma FinancialMetrics_new_InrD:
  assumes "FinancialMetrics_new sf t cn cp pe fpe pb de fcf mc dy hi lo sec ind = Inr m"
  shows "validate_str t = Some (FinancialMetrics.ticker m)"
    and "validate_str cn = Some (company_name m)"
    and "validate_float sf cp = Some (current_price m)"
    and "validate_opt_float sf de = Some (debt_to_equity m)"
  using assms
  by (auto simp: FinancialMetrics_new_def raise_if_invalid_Inr split: Option.bind_splits)

lemma fetch_scout_report_InrD:
  assumes "fetch_scout_report uu sf tkr stock now = Inr report"
  shows "info stock \<noteq> []"
    and "py_or (dict_get (info stock) ''currentPrice'')
           (dict_get (info stock) ''regularMarketPrice'') \<noteq> PNone"
    and "validate_float sf (py_or (dict_get (info stock) ''currentPrice'')
           (dict_get (info stock) ''regularMarketPrice'')) = Some (current_price (metrics report))"
    and "FinancialMetrics.ticker (metrics report) = upper uu tkr"
    and "\<exists>dte. (if dict_get (info stock) ''debtToEquity'' \<noteq> PNone
                 then py_truediv_100 (dict_get (info stock) ''debtToEquity'')
                 else Inr PNone) = Inr dte \<and>
               validate_opt_float sf dte = Some (debt_to_equity (metrics report))"
    and "build_headlines (take MAX_HEADLINES (raw_news stock)) = Inr (headlines report)"
    and "fetch_timestamp report = now"
proof -
  let ?inf = "info stock"
  let ?cur = "py_or (dict_get ?inf ''currentPrice'') (dict_get ?inf ''regularMarketPrice'')"
  let ?raw = "dict_get ?inf ''debtToEquity''"
  from assms obtain dte m hs where
    ne: "?inf \<noteq> []" and cur: "?cur \<noteq> PNone" and
    dte: "(if ?raw \<noteq> PNone then py_truediv_100 ?raw else Inr PNone) = Inr dte" and
    m: "FinancialMetrics_new sf (PStr (upper uu tkr))
          (py_or (dict_get ?inf ''longName'')
             (py_or (dict_get ?inf ''shortName'') (PStr (upper uu tkr))))
          ?cur (dict_get ?inf ''trailingPE'') (dict_get ?inf ''forwardPE'')
          (dict_get ?inf ''priceToBook'') dte (dict_get ?inf ''freeCashflow'')
          (dict_get ?inf ''marketCap'') (dict_get ?inf ''dividendYield'')
          (dict_get ?inf ''fiftyTwoWeekHigh'') (dict_get ?inf ''fiftyTwoWeekLow'')
          (dict_get ?inf ''sector'') (dict_get ?inf ''industry'') = Inr m" and
    hs: "build_headlines (take MAX_HEADLINES (raw_news stock)) = Inr hs" and
    rep: "report = \<lparr>metrics = m, headlines = hs, fetch_timestamp = now\<rparr>"
    by (auto simp: fetch_scout_report_def Let_def split: if_splits sum.splits)
  show "?inf \<noteq> []" by (rule ne)
  show "?cur \<noteq> PNone" by (rule cur)
  show "validate_float sf ?cur = Some (current_price (metrics report))"
    using FinancialMetrics_new_InrD(3) [OF m] rep by simp
  show "FinancialMetrics.ticker (metrics report) = upper uu tkr"
    using FinancialMetrics_new_InrD(1) [OF m] rep by simp
  show "\<exists>dte. (if ?raw \<noteq> PNone then py_truediv_100 ?raw else Inr PNone) = Inr dte \<and>
               validate_opt_float sf dte = Some (debt_to_equity (metrics report))"
    using FinancialMetrics_new_InrD(4) [OF m] dte rep by auto
  show "build_headlines (take MAX_HEADLINES (raw_news stock)) = Inr (headlines report)"
    using hs rep by simp
  show "fetch_timestamp report = now"
    using rep by simp
qed

lemma generate_memo_Inr:
  "generate_memo backend report p sp = Inr memo \<longleftrightarrow>
     (\<exists>m. backend sp report = Response (Some m) \<and>
        memo = m\<lparr>perspective := p,
                  AnalystMemo.ticker := FinancialMetrics.ticker (metrics report)\<rparr>)"
  by (auto simp: generate_memo_def split: gen_outcome.splits option.splits)

subsection \<open>The example run\<close>

lemma isascii_aapl: "isascii ''aapl''"
  by code_simp

lemma map_upper_aapl: "map upper_char ''aapl'' = ''AAPL''"
  by code_simp

lemma upper_aapl: "upper uu ''aapl'' = ''AAPL''"
  by (simp only: upper_def isascii_aapl map_upper_aapl if_True)

lemma fetch_example:
  "fetch_scout_report no_unicode_case_map no_numeric_strings ''aapl'' example_stock ''2026-01-01T09:30:00''
     = Inr example_report"
  by (simp add: fetch_scout_report_def example_stock_def example_info_def example_news_def
      example_report_def example_metrics_def no_numeric_strings_def dict_get_def
      dict_get_default_def py_or_def FinancialMetrics_new_def NewsHeadline_new_def
      raise_if_invalid_def MAX_HEADLINES_def raw_news_def upper_aapl)

lemma stub_bear_example:
  "generate_memo (stub_memo_backend ''bull'' ''MSFT'') example_report ''bear'' sp
     = Inr (example_memo ''bear'' ''AAPL'')"
  by (simp add: generate_memo_def stub_memo_backend_def example_memo_def example_report_def
      example_metrics_def)

lemma stub_bull_example:
  "generate_memo (stub_memo_backend ''neutral'' ''MSFT'') example_report ''bull'' sp
     = Inr (example_memo ''bull'' ''AAPL'')"
  by (simp add: generate_memo_def stub_memo_backend_def example_memo_def example_report_def
      example_metrics_def)

section \<open>Analyst: the two overridden fields\<close>

text \<open>
  C1. Whatever memo the backend hands back, the memo returned by \<^verbatim>\<open>generate_bear_memo\<close>
  is tagged \<^verbatim>\<open>bear\<close> and the one returned by \<^verbatim>\<open>generate_bull_memo\<close> is tagged \<^verbatim>\<open>bull\<close>;
  and whenever the backend hands back a memo at all, the call does return one.
\<close>

theorem perspective_integrity:
  "(generate_bear_memo backend report = Inr memo \<longrightarrow> perspective memo = ''bear'') \<and>
   (generate_bull_memo backend report = Inr memo \<longrightarrow> perspective memo = ''bull'') \<and>
   (backend MUNGER_SYSTEM_PROMPT report = Response (Some m) \<longrightarrow>
      (\<exists>memo'. generate_bear_memo backend report = Inr memo' \<and> perspective memo' = ''bear'')) \<and>
   (backend BUFFETT_SYSTEM_PROMPT report = Response (Some m) \<longrightarrow>
      (\<exists>memo'. generate_bull_memo backend report = Inr memo' \<and> perspective memo' = ''bull''))"
  by (auto simp: generate_bear_memo_def generate_bull_memo_def generate_memo_Inr)

text \<open>The backend answers \<^verbatim>\<open>bull\<close> to the bear request and an invalid tag to the bull
  request; both are replaced.\<close>

theorem perspective_integrity_witness:
  "generate_bear_memo (stub_memo_backend ''bull'' ''MSFT'') example_report
     = Inr (example_memo ''bear'' ''AAPL'') \<and>
   generate_bull_memo (stub_memo_backend ''neutral'' ''MSFT'') example_report
     = Inr (example_memo ''bull'' ''AAPL'') \<and>
   perspective (example_memo ''bear'' ''AAPL'') = ''bear'' \<and>
   perspective (example_memo ''bull'' ''AAPL'') = ''bull''"
proof -
  have bear: "generate_bear_memo (stub_memo_backend ''bull'' ''MSFT'') example_report
     = Inr (example_memo ''bear'' ''AAPL'')"
    by (simp add: generate_bear_memo_def stub_bear_example)
  have bull: "generate_bull_memo (stub_memo_backend ''neutral'' ''MSFT'') example_report
     = Inr (example_memo ''bull'' ''AAPL'')"
    by (simp add: generate_bull_memo_def stub_bull_example)
  from bear bull
    perspective_integrity [of "stub_memo_backend ''bull'' ''MSFT''" example_report
      "example_memo ''bear'' ''AAPL''"]
    perspective_integrity [of "stub_memo_backend ''neutral'' ''MSFT''" example_report
      "example_memo ''bull'' ''AAPL''"]
  show ?thesis by simp
qed

lemma upper_char_code:
  "(of_char (upper_char c) :: nat)
     = (let n = (of_char c :: nat) in if 97 \<le> n \<and> n \<le> 122 then n - 32 else n)"
  by (auto simp: upper_char_def Let_def)

text \<open>
  C2. When \<^verbatim>\<open>fetch_scout_report\<close> succeeds, the ticker of the report's metrics is the
  upper-cased input, for every input string: for an ASCII input it is the input with each
  letter a to z replaced by its capital (the character codes 97 to 122 lowered by 32, all
  others kept) and is as long as the input; and the memo returned by \<^verbatim>\<open>_generate_memo\<close>
  carries the ticker of the report's metrics, whatever ticker the backend wrote.
\<close>

theorem ticker_normalization:
  "(fetch_scout_report unicode_upper str_as_float tkr stock now = Inr report \<longrightarrow>
      FinancialMetrics.ticker (metrics report) = upper unicode_upper tkr \<and>
      (isascii tkr \<longrightarrow>
         FinancialMetrics.ticker (metrics report) = map upper_char tkr \<and>
         map of_char (FinancialMetrics.ticker (metrics report))
           = map (\<lambda>c. let n = (of_char c :: nat) in if 97 \<le> n \<and> n \<le> 122 then n - 32 else n)
               tkr \<and>
         length (FinancialMetrics.ticker (metrics report)) = length tkr)) \<and>
   (generate_memo backend report p system_prompt = Inr memo \<longrightarrow>
      AnalystMemo.ticker memo = FinancialMetrics.ticker (metrics report))"
proof (intro conjI impI)
  assume ok: "fetch_scout_report unicode_upper str_as_float tkr stock now = Inr report"
  then show t: "FinancialMetrics.ticker (metrics report) = upper unicode_upper tkr"
    by (rule fetch_scout_report_InrD(4))
  assume "isascii tkr"
  with t show u: "FinancialMetrics.ticker (metrics report) = map upper_char tkr"
    by (simp add: upper_def)
  then show "map of_char (FinancialMetrics.ticker (metrics report))
           = map (\<lambda>c. let n = (of_char c :: nat) in if 97 \<le> n \<and> n \<le> 122 then n - 32 else n)
               tkr"
    by (simp add: upper_char_code)
  from u show "length (FinancialMetrics.ticker (metrics report)) = length tkr"
    by simp
next
  assume "generate_memo backend report p system_prompt = Inr memo"
  then show "AnalystMemo.ticker memo = FinancialMetrics.ticker (metrics report)"
    by (auto simp: generate_memo_Inr)
qed

text \<open>The input \<^verbatim>\<open>aapl\<close> is stored as \<^verbatim>\<open>AAPL\<close>, and a memo the backend labelled
  \<^verbatim>\<open>MSFT\<close> comes back labelled \<^verbatim>\<open>AAPL\<close>. A dot, a dash and a digit stay as they are.\<close>

theorem ticker_normalization_witness:
  "fetch_scout_report no_unicode_case_map no_numeric_strings ''aapl'' example_stock
     ''2026-01-01T09:30:00'' = Inr example_report \<and>
   isascii ''aapl'' \<and>
   FinancialMetrics.ticker (metrics example_report) = ''AAPL'' \<and>
   map upper_char ''aapl'' = ''AAPL'' \<and>
   map upper_char ''brk.b-1'' = ''BRK.B-1'' \<and>
   generate_memo (stub_memo_backend ''bull'' ''MSFT'') example_report ''bear''
       MUNGER_SYSTEM_PROMPT = Inr (example_memo ''bear'' ''AAPL'') \<and>
   AnalystMemo.ticker (example_memo ''bear'' ''AAPL'')
     = FinancialMetrics.ticker (metrics example_report)"
proof -
  have m: "map upper_char ''brk.b-1'' = ''BRK.B-1''" by code_simp
  from ticker_normalization [of no_unicode_case_map no_numeric_strings "''aapl''"
      example_stock "''2026-01-01T09:30:00''" example_report
      "stub_memo_backend ''bull'' ''MSFT''" "''bear''" MUNGER_SYSTEM_PROMPT
      "example_memo ''bear'' ''AAPL''"]
    fetch_example stub_bear_example [of MUNGER_SYSTEM_PROMPT] isascii_aapl map_upper_aapl m
  show ?thesis by (simp add: upper_aapl)
qed

section \<open>Synthesizer: composition of the final recommendation\<close>

lemma SynthesizerOutput_new_Inr:
  "SynthesizerOutput_new t r c s kc = Inr so \<longleftrightarrow>
     r \<in> set RECOMMENDATIONS \<and> 0 \<le> c \<and> c \<le> 1 \<and> length s \<le> 600 \<and>
     1 \<le> length kc \<and> length kc \<le> 5 \<and>
     so = \<lparr>SynthesizerOutput.ticker = t, SynthesizerOutput.recommendation = r,
            SynthesizerOutput.confidence_score = c, SynthesizerOutput.synthesis_summary = s,
            SynthesizerOutput.key_caveats = kc\<rparr>"
  by (auto simp: SynthesizerOutput_new_def)

lemma synthesize_parsed:
  assumes "SynthesizerOutput_new t r c s kc = Inr so"
    and "backend SYNTHESIZER_SYSTEM_PROMPT bull bear m = Response (Some so)"
  shows "synthesize backend bull bear m =
     Inr \<lparr>ticker = SynthesizerOutput.ticker so,
          recommendation = SynthesizerOutput.recommendation so,
          confidence_score = SynthesizerOutput.confidence_score so,
          synthesis_summary = SynthesizerOutput.synthesis_summary so,
          key_caveats = SynthesizerOutput.key_caveats so,
          bull_memo = bull, bear_memo = bear\<rparr>"
  using assms
  by (simp add: synthesize_def FinalRecommendation_new_def SynthesizerOutput_new_Inr)

lemma synthesize_InrD:
  assumes "synthesize backend bull bear m = Inr fr"
  shows "\<exists>so. backend SYNTHESIZER_SYSTEM_PROMPT bull bear m = Response (Some so) \<and>
           fr = \<lparr>ticker = SynthesizerOutput.ticker so,
                  recommendation = SynthesizerOutput.recommendation so,
                  confidence_score = SynthesizerOutput.confidence_score so,
                  synthesis_summary = SynthesizerOutput.synthesis_summary so,
                  key_caveats = SynthesizerOutput.key_caveats so,
                  bull_memo = bull, bear_memo = bear\<rparr>"
  using assms
  by (auto simp: synthesize_def FinalRecommendation_new_def
      split: gen_outcome.splits option.splits if_splits)

lemma example_synth_output_parsed:
  "SynthesizerOutput_new ''MSFT'' ''BUY'' (3 / 4) ''s'' [''c1''] = Inr example_synth_output"
  by (simp add: SynthesizerOutput_new_def RECOMMENDATIONS_def example_synth_output_def)

text \<open>
  C3. For a \<^verbatim>\<open>SynthesizerOutput\<close> that passed its schema, \<^verbatim>\<open>synthesize\<close> returns a
  \<^verbatim>\<open>FinalRecommendation\<close> whose two memos are the arguments themselves and whose
  recommendation, confidence, summary and caveats are those of the output; and no
  successful call returns other memos than its arguments.
\<close>

theorem synthesize_keeps_memos:
  "(SynthesizerOutput_new t r c s kc = Inr so \<and>
    backend SYNTHESIZER_SYSTEM_PROMPT bull bear m = Response (Some so) \<longrightarrow>
      (\<exists>fr. synthesize backend bull bear m = Inr fr \<and>
         bull_memo fr = bull \<and> bear_memo fr = bear \<and>
         recommendation fr = SynthesizerOutput.recommendation so \<and>
         confidence_score fr = SynthesizerOutput.confidence_score so \<and>
         synthesis_summary fr = SynthesizerOutput.synthesis_summary so \<and>
         key_caveats fr = SynthesizerOutput.key_caveats so)) \<and>
   (synthesize backend bull bear m = Inr fr' \<longrightarrow> bull_memo fr' = bull \<and> bear_memo fr' = bear)"
proof (intro conjI impI)
  assume "SynthesizerOutput_new t r c s kc = Inr so \<and>
    backend SYNTHESIZER_SYSTEM_PROMPT bull bear m = Response (Some so)"
  then show "\<exists>fr. synthesize backend bull bear m = Inr fr \<and>
         bull_memo fr = bull \<and> bear_memo fr = bear \<and>
         recommendation fr = SynthesizerOutput.recommendation so \<and>
         confidence_score fr = SynthesizerOutput.confidence_score so \<and>
         synthesis_summary fr = SynthesizerOutput.synthesis_summary so \<and>
         key_caveats fr = SynthesizerOutput.key_caveats so"
    using synthesize_parsed [of t r c s kc so backend bull bear m] by simp
next
  assume "synthesize backend bull bear m = Inr fr'"
  from synthesize_InrD [OF this] show "bull_memo fr' = bull" by auto
next
  assume "synthesize backend bull bear m = Inr fr'"
  from synthesize_InrD [OF this] show "bear_memo fr' = bear" by auto
qed

theorem synthesize_keeps_memos_witness:
  "SynthesizerOutput_new ''MSFT'' ''BUY'' (3 / 4) ''s'' [''c1''] = Inr example_synth_output \<and>
   (\<exists>fr. synthesize stub_synth_backend (example_memo ''bull'' ''AAPL'')
            (example_memo ''bear'' ''AAPL'') example_metrics = Inr fr \<and>
      bull_memo fr = example_memo ''bull'' ''AAPL'' \<and>
      bear_memo fr = example_memo ''bear'' ''AAPL'' \<and>
      recommendation fr = ''BUY'' \<and> confidence_score fr = 3 / 4 \<and>
      synthesis_summary fr = ''s'' \<and> key_caveats fr = [''c1''])"
  using synthesize_keeps_memos [of "''MSFT''" "''BUY''" "3 / 4" "''s''" "[''c1'']"
      example_synth_output stub_synth_backend "example_memo ''bull'' ''AAPL''"
      "example_memo ''bear'' ''AAPL''" example_metrics]
    example_synth_output_parsed
  by (simp add: stub_synth_backend_def example_synth_output_def)

text \<open>
  C9. The ticker of the \<^verbatim>\<open>FinalRecommendation\<close> is the one the model wrote into its
  \<^verbatim>\<open>SynthesizerOutput\<close>; \<^verbatim>\<open>synthesize\<close> does not replace it by the ticker of the metrics
  it was called with, and some backend output makes the two differ.
\<close>

theorem synthesize_ticker_from_model:
  "(SynthesizerOutput_new t r c s kc = Inr so \<and>
    backend SYNTHESIZER_SYSTEM_PROMPT bull bear m = Response (Some so) \<longrightarrow>
      (\<exists>fr. synthesize backend bull bear m = Inr fr \<and>
         FinalRecommendation.ticker fr = SynthesizerOutput.ticker so)) \<and>
   (\<exists>backend' bull' bear' m' fr'. synthesize backend' bull' bear' m' = Inr fr' \<and>
      FinalRecommendation.ticker fr' \<noteq> FinancialMetrics.ticker m')"
proof
  show "SynthesizerOutput_new t r c s kc = Inr so \<and>
    backend SYNTHESIZER_SYSTEM_PROMPT bull bear m = Response (Some so) \<longrightarrow>
      (\<exists>fr. synthesize backend bull bear m = Inr fr \<and>
         FinalRecommendation.ticker fr = SynthesizerOutput.ticker so)"
    using synthesize_parsed [of t r c s kc so backend bull bear m] by simp
next
  let ?fr = "\<lparr>ticker = ''MSFT'', recommendation = ''BUY'', confidence_score = 3 / 4,
      synthesis_summary = ''s'', key_caveats = [''c1''],
      bull_memo = example_memo ''bull'' ''AAPL'', bear_memo = example_memo ''bear'' ''AAPL''\<rparr>"
  have "synthesize stub_synth_backend (example_memo ''bull'' ''AAPL'')
          (example_memo ''bear'' ''AAPL'') example_metrics = Inr ?fr"
    using synthesize_parsed [OF example_synth_output_parsed, of stub_synth_backend]
    by (simp add: stub_synth_backend_def example_synth_output_def)
  moreover have "FinalRecommendation.ticker ?fr \<noteq> FinancialMetrics.ticker example_metrics"
    by (simp add: example_metrics_def)
  ultimately show "\<exists>backend' bull' bear' m' fr'. synthesize backend' bull' bear' m' = Inr fr' \<and>
      FinalRecommendation.ticker fr' \<noteq> FinancialMetrics.ticker m'"
    by blast
qed

text \<open>Called with the metrics of \<^verbatim>\<open>AAPL\<close>, a backend that writes \<^verbatim>\<open>MSFT\<close> gets \<^verbatim>\<open>MSFT\<close>
  into the final recommendation.\<close>

theorem synthesize_ticker_from_model_witness:
  "SynthesizerOutput_new ''MSFT'' ''BUY'' (3 / 4) ''s'' [''c1''] = Inr example_synth_output \<and>
   FinancialMetrics.ticker example_metrics = ''AAPL'' \<and>
   (\<exists>fr. synthesize stub_synth_backend (example_memo ''bull'' ''AAPL'')
            (example_memo ''bear'' ''AAPL'') example_metrics = Inr fr \<and>
      FinalRecommendation.ticker fr = ''MSFT'')"
  using synthesize_ticker_from_model [of "''MSFT''" "''BUY''" "3 / 4" "''s''" "[''c1'']"
      example_synth_output stub_synth_backend "example_memo ''bull'' ''AAPL''"
      "example_memo ''bear'' ''AAPL''" example_metrics]
    example_synth_output_parsed
  by (simp add: stub_synth_backend_def example_synth_output_def example_metrics_def)

section \<open>Scout: the price\<close>

lemma dict_get_Nil: "dict_get [] k = PNone"
  by (simp add: dict_get_def dict_get_default_def)

lemma fetch_zero_price:
  "fetch_scout_report no_unicode_case_map no_numeric_strings ''aapl'' \<lparr>info = zero_price_info, news = None\<rparr>
     ''2026-01-01T09:30:00'' = Inr zero_price_report"
  by (simp add: fetch_scout_report_def zero_price_info_def zero_price_report_def
      no_numeric_strings_def dict_get_def dict_get_default_def py_or_def
      FinancialMetrics_new_def raise_if_invalid_def MAX_HEADLINES_def raw_news_def upper_aapl)

text \<open>
  C4, as the code has it. An empty payload, or one in which both price fields are
  \<^verbatim>\<open>None\<close> or missing, fails with the invalid-ticker error. When the call succeeds, the
  stored price is the validated value of \<^verbatim>\<open>currentPrice\<close> if that value is truthy
  (present and not zero), and of \<^verbatim>\<open>regularMarketPrice\<close> otherwise; with \<^verbatim>\<open>currentPrice\<close>
  \<^verbatim>\<open>None\<close> and \<^verbatim>\<open>regularMarketPrice\<close> 123.45 the stored price is 123.45.
\<close>

theorem price_fallback:
  "(info stock = [] \<or> (dict_get (info stock) ''regularMarketPrice'' = PNone \<and>
                        dict_get (info stock) ''currentPrice'' = PNone) \<longrightarrow>
      fetch_scout_report unicode_upper str_as_float tkr stock now
        = Inl (ValueError (''Invalid ticker or no data available for: '' @ tkr))) \<and>
   (fetch_scout_report unicode_upper str_as_float tkr stock now = Inr report \<longrightarrow>
      validate_float str_as_float
        (if truthy (dict_get (info stock) ''currentPrice'')
         then dict_get (info stock) ''currentPrice''
         else dict_get (info stock) ''regularMarketPrice'')
        = Some (current_price (metrics report))) \<and>
   (fetch_scout_report unicode_upper str_as_float tkr stock now = Inr report \<and>
    dict_get (info stock) ''currentPrice'' = PNone \<and>
    dict_get (info stock) ''regularMarketPrice'' = PNum (12345 / 100) \<longrightarrow>
      current_price (metrics report) = 12345 / 100)"
proof (intro conjI impI)
  assume "info stock = [] \<or> (dict_get (info stock) ''regularMarketPrice'' = PNone \<and>
                        dict_get (info stock) ''currentPrice'' = PNone)"
  then show "fetch_scout_report unicode_upper str_as_float tkr stock now
        = Inl (ValueError (''Invalid ticker or no data available for: '' @ tkr))"
    by (auto simp: fetch_scout_report_def)
next
  assume "fetch_scout_report unicode_upper str_as_float tkr stock now = Inr report"
  from fetch_scout_report_InrD(3) [OF this]
  show "validate_float str_as_float
        (if truthy (dict_get (info stock) ''currentPrice'')
         then dict_get (info stock) ''currentPrice''
         else dict_get (info stock) ''regularMarketPrice'')
        = Some (current_price (metrics report))"
    by (simp add: py_or_def)
next
  assume a: "fetch_scout_report unicode_upper str_as_float tkr stock now = Inr report \<and>
    dict_get (info stock) ''currentPrice'' = PNone \<and>
    dict_get (info stock) ''regularMarketPrice'' = PNum (12345 / 100)"
  then have "fetch_scout_report unicode_upper str_as_float tkr stock now = Inr report" by simp
  from fetch_scout_report_InrD(3) [OF this] a
  show "current_price (metrics report) = 12345 / 100"
    by (simp add: py_or_def)
qed

text \<open>The example payload has no live price and a regular market price of 123.45; the
  empty payload is refused.\<close>

theorem price_fallback_witness:
  "fetch_scout_report no_unicode_case_map no_numeric_strings ''aapl'' example_stock ''2026-01-01T09:30:00''
     = Inr example_report \<and>
   dict_get (info example_stock) ''currentPrice'' = PNone \<and>
   dict_get (info example_stock) ''regularMarketPrice'' = PNum (12345 / 100) \<and>
   current_price (metrics example_report) = 12345 / 100 \<and>
   fetch_scout_report no_unicode_case_map no_numeric_strings ''aapl'' \<lparr>info = [], news = None\<rparr>
     ''2026-01-01T09:30:00''
     = Inl (ValueError ''Invalid ticker or no data available for: aapl'')"
proof -
  have cp: "dict_get (info example_stock) ''currentPrice'' = PNone"
    and rmp: "dict_get (info example_stock) ''regularMarketPrice'' = PNum (12345 / 100)"
    by (simp_all add: example_stock_def example_info_def dict_get_def dict_get_default_def)
  from price_fallback [of example_stock no_unicode_case_map no_numeric_strings "''aapl''"
      "''2026-01-01T09:30:00''" example_report] fetch_example cp rmp
  have "current_price (metrics example_report) = 12345 / 100" by simp
  moreover from price_fallback [of "\<lparr>info = [], news = None\<rparr>" no_unicode_case_map no_numeric_strings "''aapl''"
      "''2026-01-01T09:30:00''"]
  have "fetch_scout_report no_unicode_case_map no_numeric_strings ''aapl'' \<lparr>info = [], news = None\<rparr>
     ''2026-01-01T09:30:00''
     = Inl (ValueError ''Invalid ticker or no data available for: aapl'')" by simp
  ultimately show ?thesis using fetch_example cp rmp by simp
qed

text \<open>Preference by presence fails: here \<^verbatim>\<open>currentPrice\<close> is present, with the value 0,
  and the stored price is the regular market price 5.\<close>

theorem price_fallback_counterexample:
  "map_of zero_price_info ''currentPrice'' = Some (PNum 0) \<and>
   fetch_scout_report no_unicode_case_map no_numeric_strings ''aapl'' \<lparr>info = zero_price_info, news = None\<rparr>
     ''2026-01-01T09:30:00'' = Inr zero_price_report \<and>
   current_price (metrics zero_price_report) = 5 \<and>
   current_price (metrics zero_price_report) \<noteq> 0"
  using fetch_zero_price by (simp add: zero_price_info_def zero_price_report_def)

text \<open>
  C10. The fallback goes by truthiness: when the value of \<^verbatim>\<open>currentPrice\<close> is present but
  falsy, a successful call has stored the (validated) \<^verbatim>\<open>regularMarketPrice\<close>. And when
  \<^verbatim>\<open>currentPrice\<close> is 0 and \<^verbatim>\<open>regularMarketPrice\<close> is missing, the payload passes the first
  check and the call raises the second error, so that guard can fire.
\<close>

theorem price_fallback_by_truthiness:
  "(fetch_scout_report unicode_upper str_as_float tkr stock now = Inr report \<and>
    map_of (info stock) ''currentPrice'' = Some v \<and> \<not> truthy v \<longrightarrow>
      validate_float str_as_float (dict_get (info stock) ''regularMarketPrice'')
        = Some (current_price (metrics report))) \<and>
   (dict_get (info stock) ''currentPrice'' = PNum 0 \<and>
    dict_get (info stock) ''regularMarketPrice'' = PNone \<longrightarrow>
      \<not> (info stock = [] \<or> (dict_get (info stock) ''regularMarketPrice'' = PNone \<and>
                             dict_get (info stock) ''currentPrice'' = PNone)) \<and>
      fetch_scout_report unicode_upper str_as_float tkr stock now
        = Inl (ValueError (''Could not determine current price for: '' @ tkr)))"
proof (intro conjI impI)
  assume a: "fetch_scout_report unicode_upper str_as_float tkr stock now = Inr report \<and>
    map_of (info stock) ''currentPrice'' = Some v \<and> \<not> truthy v"
  then have "fetch_scout_report unicode_upper str_as_float tkr stock now = Inr report" by simp
  from fetch_scout_report_InrD(3) [OF this] a
  show "validate_float str_as_float (dict_get (info stock) ''regularMarketPrice'')
        = Some (current_price (metrics report))"
    by (simp add: py_or_def dict_get_def dict_get_default_def)
next
  assume a: "dict_get (info stock) ''currentPrice'' = PNum 0 \<and>
    dict_get (info stock) ''regularMarketPrice'' = PNone"
  then have ne: "info stock \<noteq> []"
    using dict_get_Nil [of "''currentPrice''"] by auto
  with a show "\<not> (info stock = [] \<or> (dict_get (info stock) ''regularMarketPrice'' = PNone \<and>
                             dict_get (info stock) ''currentPrice'' = PNone))"
    by simp
  from a ne show "fetch_scout_report unicode_upper str_as_float tkr stock now
        = Inl (ValueError (''Could not determine current price for: '' @ tkr))"
    by (simp add: fetch_scout_report_def py_or_def)
qed

text \<open>A live price of 0 beside a regular market price of 5 stores 5; a live price of 0
  alone is not refused by the first check and raises the second error.\<close>

theorem price_fallback_by_truthiness_witness:
  "map_of zero_price_info ''currentPrice'' = Some (PNum 0) \<and> \<not> truthy (PNum 0) \<and>
   fetch_scout_report no_unicode_case_map no_numeric_strings ''aapl'' \<lparr>info = zero_price_info, news = None\<rparr>
     ''2026-01-01T09:30:00'' = Inr zero_price_report \<and>
   dict_get zero_price_info ''regularMarketPrice'' = PNum (current_price (metrics zero_price_report)) \<and>
   dict_get zero_only_info ''currentPrice'' = PNum 0 \<and>
   dict_get zero_only_info ''regularMarketPrice'' = PNone \<and>
   zero_only_info \<noteq> [] \<and>
   fetch_scout_report no_unicode_case_map no_numeric_strings ''aapl'' \<lparr>info = zero_only_info, news = None\<rparr>
     ''2026-01-01T09:30:00''
     = Inl (ValueError ''Could not determine current price for: aapl'')"
proof -
  have z: "map_of zero_price_info ''currentPrice'' = Some (PNum 0)"
    and r: "dict_get zero_price_info ''regularMarketPrice'' = PNum 5"
    by (simp_all add: zero_price_info_def dict_get_def dict_get_default_def)
  have o: "dict_get zero_only_info ''currentPrice'' = PNum 0"
    "dict_get zero_only_info ''regularMarketPrice'' = PNone" "zero_only_info \<noteq> []"
    by (simp_all add: zero_only_info_def dict_get_def dict_get_default_def)
  from price_fallback_by_truthiness [of no_unicode_case_map no_numeric_strings "''aapl''"
      "\<lparr>info = zero_price_info, news = None\<rparr>" "''2026-01-01T09:30:00''" zero_price_report
      "PNum 0"] fetch_zero_price z r
  have "dict_get zero_price_info ''regularMarketPrice''
          = PNum (current_price (metrics zero_price_report))" by simp
  moreover from price_fallback_by_truthiness [of no_unicode_case_map no_numeric_strings "''aapl''"
      "\<lparr>info = zero_only_info, news = None\<rparr>" "''2026-01-01T09:30:00''"] o
  have "fetch_scout_report no_unicode_case_map no_numeric_strings ''aapl'' \<lparr>info = zero_only_info, news = None\<rparr>
     ''2026-01-01T09:30:00''
     = Inl (ValueError ''Could not determine current price for: aapl'')" by simp
  ultimately show ?thesis using z o fetch_zero_price by simp
qed

section \<open>Scout: debt to equity and headlines\<close>

lemma py_truediv_100_Inr:
  "py_truediv_100 v = Inr dte \<longleftrightarrow>
     (\<exists>x. v = PNum x \<and> dte = PNum (round_double (x / 100)) \<and>
        \<bar>round_double (x / 100)\<bar> < 2 ^ 1024)"
  by (cases v) (auto simp: Let_def)

lemma float_152_411_literal: "round_double (152411 / 1000) = float_152_411"
  by code_simp

lemma float_1_52411_literal: "round_double (152411 / 100000) = float_1_52411"
  by code_simp

lemma float_152_411_div_100: "round_double (float_152_411 / 100) = float_1_52411"
  by code_simp

lemma float_152_411_truediv_100:
  "py_truediv_100 (PNum float_152_411) = Inr (PNum float_1_52411)"
  by code_simp

text \<open>The quotient is rounded: the float \<^verbatim>\<open>0.07\<close> divided by 100 is neither the exact
  \<open>7 / 10000\<close> nor the float \<^verbatim>\<open>0.0007\<close>.\<close>

lemma float_division_rounds:
  "round_double (round_double (7 / 100) / 100) \<noteq> 7 / 10000"
  "round_double (round_double (7 / 100) / 100) \<noteq> round_double (7 / 10000)"
  by code_simp+

text \<open>A value halfway between two floats goes to the one with the even significand, so
  the ints \<open>100 * (2 ^ 53 + 1)\<close> and \<open>100 * (2 ^ 53 + 3)\<close> divided by 100 give \<open>2 ^ 53\<close> and
  \<open>2 ^ 53 + 4\<close>.\<close>

lemma int_division_ties_to_even:
  "py_truediv_100 (PNum (100 * (2 ^ 53 + 1))) = Inr (PNum (2 ^ 53))"
  "py_truediv_100 (PNum (100 * (2 ^ 53 + 3))) = Inr (PNum (2 ^ 53 + 4))"
  by code_simp+

lemma fetch_debt:
  "fetch_scout_report no_unicode_case_map no_numeric_strings ''aapl''
     \<lparr>info = debt_info, news = None\<rparr> ''2026-01-01T09:30:00'' = Inr debt_report"
  by (simp add: fetch_scout_report_def debt_info_def debt_report_def
      no_numeric_strings_def dict_get_def dict_get_default_def py_or_def
      FinancialMetrics_new_def raise_if_invalid_def MAX_HEADLINES_def raw_news_def upper_aapl
      float_152_411_truediv_100 del: py_truediv_100.simps)

text \<open>
  C7. When the call succeeds, a raw \<^verbatim>\<open>debtToEquity\<close> number is stored divided by 100, the
  division being Python's: the exact quotient rounded to a float, which then is a finite
  one; and a missing raw value (or \<^verbatim>\<open>None\<close>) is stored as \<^verbatim>\<open>None\<close>. The raw value is never
  a string then, since dividing a string raises.
\<close>

theorem debt_to_equity_conversion:
  "fetch_scout_report unicode_upper str_as_float tkr stock now = Inr report \<longrightarrow>
     (dict_get (info stock) ''debtToEquity'' = PNone \<longrightarrow>
        debt_to_equity (metrics report) = None) \<and>
     (\<forall>raw. dict_get (info stock) ''debtToEquity'' = PNum raw \<longrightarrow>
        debt_to_equity (metrics report) = Some (round_double (raw / 100)) \<and>
        \<bar>round_double (raw / 100)\<bar> < 2 ^ 1024) \<and>
     (\<forall>s. dict_get (info stock) ''debtToEquity'' \<noteq> PStr s)"
proof
  assume "fetch_scout_report unicode_upper str_as_float tkr stock now = Inr report"
  from fetch_scout_report_InrD(5) [OF this] obtain dte where
    dte: "(if dict_get (info stock) ''debtToEquity'' \<noteq> PNone
           then py_truediv_100 (dict_get (info stock) ''debtToEquity'')
           else Inr PNone) = Inr dte"
    and v: "validate_opt_float str_as_float dte = Some (debt_to_equity (metrics report))"
    by blast
  show "(dict_get (info stock) ''debtToEquity'' = PNone \<longrightarrow>
        debt_to_equity (metrics report) = None) \<and>
     (\<forall>raw. dict_get (info stock) ''debtToEquity'' = PNum raw \<longrightarrow>
        debt_to_equity (metrics report) = Some (round_double (raw / 100)) \<and>
        \<bar>round_double (raw / 100)\<bar> < 2 ^ 1024) \<and>
     (\<forall>s. dict_get (info stock) ''debtToEquity'' \<noteq> PStr s)"
  proof (cases "dict_get (info stock) ''debtToEquity''")
    case PNone
    with dte v show ?thesis by auto
  next
    case (PNum x)
    with dte have "py_truediv_100 (PNum x) = Inr dte"
      by (simp del: py_truediv_100.simps)
    then have "dte = PNum (round_double (x / 100))"
      and "\<bar>round_double (x / 100)\<bar> < 2 ^ 1024"
      unfolding py_truediv_100_Inr by auto
    with v PNum show ?thesis by auto
  next
    case (PStr s)
    with dte show ?thesis by simp
  qed
qed

text \<open>The raw float \<^verbatim>\<open>152.411\<close> is stored as the float \<^verbatim>\<open>1.52411\<close>; the payload without
  the key stores nothing.\<close>

theorem debt_to_equity_conversion_witness:
  "fetch_scout_report no_unicode_case_map no_numeric_strings ''aapl''
     \<lparr>info = debt_info, news = None\<rparr> ''2026-01-01T09:30:00'' = Inr debt_report \<and>
   dict_get debt_info ''debtToEquity'' = PNum (round_double (152411 / 1000)) \<and>
   debt_to_equity (metrics debt_report) = Some (round_double (152411 / 100000)) \<and>
   round_double (152411 / 100000) = 6863981228071647 / 4503599627370496 \<and>
   fetch_scout_report no_unicode_case_map no_numeric_strings ''aapl''
     \<lparr>info = zero_price_info, news = None\<rparr> ''2026-01-01T09:30:00'' = Inr zero_price_report \<and>
   dict_get zero_price_info ''debtToEquity'' = PNone \<and>
   debt_to_equity (metrics zero_price_report) = None"
proof -
  have raw: "dict_get (info \<lparr>info = debt_info, news = None\<rparr>) ''debtToEquity''
      = PNum float_152_411"
    by (simp add: debt_info_def dict_get_def dict_get_default_def)
  have none: "dict_get zero_price_info ''debtToEquity'' = PNone"
    by (simp add: zero_price_info_def dict_get_def dict_get_default_def)
  from debt_to_equity_conversion [of no_unicode_case_map no_numeric_strings "''aapl''"
      "\<lparr>info = debt_info, news = None\<rparr>" "''2026-01-01T09:30:00''" debt_report] fetch_debt
  have "\<forall>raw. dict_get (info \<lparr>info = debt_info, news = None\<rparr>) ''debtToEquity'' = PNum raw \<longrightarrow>
          debt_to_equity (metrics debt_report) = Some (round_double (raw / 100))"
    by blast
  with raw have "debt_to_equity (metrics debt_report) = Some (round_double (float_152_411 / 100))"
    by blast
  then have stored: "debt_to_equity (metrics debt_report) = Some (round_double (152411 / 100000))"
    by (simp add: float_152_411_div_100 float_1_52411_literal)
  from debt_to_equity_conversion [of no_unicode_case_map no_numeric_strings "''aapl''"
      "\<lparr>info = zero_price_info, news = None\<rparr>" "''2026-01-01T09:30:00''" zero_price_report]
    fetch_zero_price none
  have "debt_to_equity (metrics zero_price_report) = None" by simp
  with stored raw none fetch_debt fetch_zero_price show ?thesis
    by (simp add: float_152_411_literal float_1_52411_literal float_1_52411_def)
qed

lemma truthy_title:
  assumes "truthy (dict_get item ''title'')"
    and "validate_str (dict_get_default item ''title'' (PStr [])) = Some t"
  shows "dict_get item ''title'' = PStr t" and "t \<noteq> []"
proof -
  from assms(1) obtain v where v: "map_of item ''title'' = Some v"
    by (cases "map_of item ''title''") (auto simp: dict_get_def dict_get_default_def)
  with assms(2) have "v = PStr t"
    by (cases v) (auto simp: dict_get_default_def)
  with v show "dict_get item ''title'' = PStr t"
    by (simp add: dict_get_def dict_get_default_def)
  with assms(1) show "t \<noteq> []" by simp
qed

lemma falsy_title: "\<not> truthy (dict_get item ''title'') \<Longrightarrow> \<not> has_nonempty_title item"
  by (cases "dict_get item ''title''") (auto simp: has_nonempty_title_def)

lemma NewsHeadline_new_title:
  "NewsHeadline_new t p l = Inr h \<Longrightarrow> validate_str t = Some (title h)"
  by (auto simp: NewsHeadline_new_def raise_if_invalid_Inr split: Option.bind_splits)

lemma build_headlines_filter:
  "build_headlines items = Inr hs \<Longrightarrow>
     list_all2 (\<lambda>h item. headline_of item = Inr h \<and> dict_get item ''title'' = PStr (title h))
       hs (filter has_nonempty_title items) \<and>
     (\<forall>h \<in> set hs. title h \<noteq> [])"
proof (induction items arbitrary: hs)
  case Nil
  then show ?case by simp
next
  case (Cons item items)
  show ?case
  proof (cases "truthy (dict_get item ''title'')")
    case False
    with Cons.prems have "build_headlines items = Inr hs" by simp
    from Cons.IH [OF this] falsy_title [OF False] show ?thesis by simp
  next
    case True
    with Cons.prems obtain h hs' where
      h: "headline_of item = Inr h" and rest: "build_headlines items = Inr hs'"
      and hs: "hs = h # hs'"
      by (auto simp: headline_of_def split: sum.splits)
    from h have "validate_str (dict_get_default item ''title'' (PStr [])) = Some (title h)"
      unfolding headline_of_def by (rule NewsHeadline_new_title)
    from truthy_title [OF True this]
    have t: "dict_get item ''title'' = PStr (title h)" and ne: "title h \<noteq> []" .
    then have "has_nonempty_title item" by (simp add: has_nonempty_title_def)
    with Cons.IH [OF rest] h t ne hs show ?thesis by simp
  qed
qed

text \<open>
  C5. The headlines of a report correspond one to one, in order, to the items among the
  first \<^verbatim>\<open>MAX_HEADLINES\<close> (five) raw items that have a non-empty title: each headline is
  the one constructed from its item and carries that item's title. So no headline is
  untitled and there are at most five.
\<close>

theorem headline_filtering:
  "fetch_scout_report unicode_upper str_as_float tkr stock now = Inr report \<longrightarrow>
     list_all2 (\<lambda>h item. headline_of item = Inr h \<and> dict_get item ''title'' = PStr (title h))
       (headlines report) (filter has_nonempty_title (take MAX_HEADLINES (raw_news stock))) \<and>
     map (\<lambda>h. PStr (title h)) (headlines report)
       = map (\<lambda>item. dict_get item ''title'')
           (filter has_nonempty_title (take MAX_HEADLINES (raw_news stock))) \<and>
     (\<forall>h \<in> set (headlines report). title h \<noteq> []) \<and>
     length (headlines report) \<le> MAX_HEADLINES \<and> MAX_HEADLINES = 5"
proof
  assume "fetch_scout_report unicode_upper str_as_float tkr stock now = Inr report"
  from build_headlines_filter [OF fetch_scout_report_InrD(6) [OF this]]
  have corr: "list_all2
       (\<lambda>h item. headline_of item = Inr h \<and> dict_get item ''title'' = PStr (title h))
       (headlines report) (filter has_nonempty_title (take MAX_HEADLINES (raw_news stock)))"
    and titled: "\<forall>h \<in> set (headlines report). title h \<noteq> []"
    by simp_all
  from corr have titles: "map (\<lambda>h. PStr (title h)) (headlines report)
       = map (\<lambda>item. dict_get item ''title'')
           (filter has_nonempty_title (take MAX_HEADLINES (raw_news stock)))"
    by (induction rule: list_all2_induct) simp_all
  from corr have "length (headlines report)
      = length (filter has_nonempty_title (take MAX_HEADLINES (raw_news stock)))"
    by (rule list_all2_lengthD)
  also have "\<dots> \<le> length (take MAX_HEADLINES (raw_news stock))"
    by (rule length_filter_le)
  also have "\<dots> \<le> MAX_HEADLINES" by simp
  finally have len: "length (headlines report) \<le> MAX_HEADLINES" .
  from corr titles titled len
  show "list_all2 (\<lambda>h item. headline_of item = Inr h \<and> dict_get item ''title'' = PStr (title h))
       (headlines report) (filter has_nonempty_title (take MAX_HEADLINES (raw_news stock))) \<and>
     map (\<lambda>h. PStr (title h)) (headlines report)
       = map (\<lambda>item. dict_get item ''title'')
           (filter has_nonempty_title (take MAX_HEADLINES (raw_news stock))) \<and>
     (\<forall>h \<in> set (headlines report). title h \<noteq> []) \<and>
     length (headlines report) \<le> MAX_HEADLINES \<and> MAX_HEADLINES = 5"
    by (simp add: MAX_HEADLINES_def)
qed

text \<open>Of the seven example items the first five are looked at; the second, third and
  fifth have no title, so the headlines are those of the first and the fourth, in that
  order, and the titled sixth and seventh items are cut off.\<close>

theorem headline_filtering_witness:
  "fetch_scout_report no_unicode_case_map no_numeric_strings ''aapl'' example_stock ''2026-01-01T09:30:00''
     = Inr example_report \<and>
   raw_news example_stock = example_news \<and> length example_news = 7 \<and>
   map title (headlines example_report) = [''A'', ''B''] \<and>
   map (\<lambda>item. dict_get item ''title'')
     (filter has_nonempty_title (take MAX_HEADLINES (raw_news example_stock)))
     = [PStr ''A'', PStr ''B''] \<and>
   length (headlines example_report) \<le> 5"
proof -
  have rn: "raw_news example_stock = example_news" and len: "length example_news = 7"
    by (simp_all add: raw_news_def example_stock_def example_news_def)
  have ts: "map title (headlines example_report) = [''A'', ''B'']"
    by (simp add: example_report_def)
  from headline_filtering [of no_unicode_case_map no_numeric_strings "''aapl''" example_stock
      "''2026-01-01T09:30:00''" example_report] fetch_example
  have "map (\<lambda>h. PStr (title h)) (headlines example_report)
       = map (\<lambda>item. dict_get item ''title'')
           (filter has_nonempty_title (take MAX_HEADLINES (raw_news example_stock)))"
    and "length (headlines example_report) \<le> 5"
    by simp_all
  with ts rn len fetch_example show ?thesis
    by (simp add: example_report_def)
qed

section \<open>Schema bounds\<close>

text \<open>
  C6. With the other fields within their bounds, constructing an \<^verbatim>\<open>AnalystMemo\<close> fails
  for a confidence of 1.5, fails for two key points, succeeds for five key points,
  fails for six, and with three to five key points it succeeds exactly when the confidence
  lies in the closed interval from 0 to 1.
\<close>

theorem AnalystMemo_bounds:
  "p \<in> set PERSPECTIVES \<and> length s \<le> 500 \<and> length rr \<le> 300 \<longrightarrow>
     AnalystMemo_new p t s kps rr (3 / 2) = Inl ValidationError \<and>
     (length kps = 2 \<longrightarrow> AnalystMemo_new p t s kps rr c = Inl ValidationError) \<and>
     (length kps = 5 \<and> 0 \<le> c \<and> c \<le> 1 \<longrightarrow>
        AnalystMemo_new p t s kps rr c
          = Inr \<lparr>perspective = p, AnalystMemo.ticker = t, summary = s, key_points = kps,
                 risk_reward_assessment = rr, confidence_in_thesis = c\<rparr>) \<and>
     (length kps = 6 \<longrightarrow> AnalystMemo_new p t s kps rr c = Inl ValidationError) \<and>
     (3 \<le> length kps \<and> length kps \<le> 5 \<longrightarrow>
        (AnalystMemo_new p t s kps rr c
           = Inr \<lparr>perspective = p, AnalystMemo.ticker = t, summary = s, key_points = kps,
                  risk_reward_assessment = rr, confidence_in_thesis = c\<rparr>)
        = (0 \<le> c \<and> c \<le> 1))"
  by (simp add: AnalystMemo_new_def)

text \<open>Five key points with the confidence on either boundary are accepted; two points,
  six points and a confidence of 1.5 are refused.\<close>

theorem AnalystMemo_bounds_witness:
  "AnalystMemo_new ''bear'' ''AAPL'' ''s'' [''1'', ''2'', ''3''] ''r'' (3 / 2) = Inl ValidationError \<and>
   AnalystMemo_new ''bear'' ''AAPL'' ''s'' [''1'', ''2''] ''r'' (1 / 2) = Inl ValidationError \<and>
   AnalystMemo_new ''bear'' ''AAPL'' ''s'' [''1'', ''2'', ''3'', ''4'', ''5''] ''r'' 1
     = Inr \<lparr>perspective = ''bear'', AnalystMemo.ticker = ''AAPL'', summary = ''s'',
            key_points = [''1'', ''2'', ''3'', ''4'', ''5''], risk_reward_assessment = ''r'',
            confidence_in_thesis = 1\<rparr> \<and>
   AnalystMemo_new ''bear'' ''AAPL'' ''s'' [''1'', ''2'', ''3'', ''4'', ''5'', ''6''] ''r'' (1 / 2)
     = Inl ValidationError \<and>
   AnalystMemo_new ''bear'' ''AAPL'' ''s'' [''1'', ''2'', ''3''] ''r'' 0
     = Inr \<lparr>perspective = ''bear'', AnalystMemo.ticker = ''AAPL'', summary = ''s'',
            key_points = [''1'', ''2'', ''3''], risk_reward_assessment = ''r'',
            confidence_in_thesis = 0\<rparr>"
proof -
  have ok: "''bear'' \<in> set PERSPECTIVES \<and> length ''s'' \<le> 500 \<and> length ''r'' \<le> 300"
    by (simp add: PERSPECTIVES_def)
  from ok AnalystMemo_bounds [of "''bear''" "''s''" "''r''" "''AAPL''" "[''1'', ''2'', ''3'']" 0]
    AnalystMemo_bounds [of "''bear''" "''s''" "''r''" "''AAPL''" "[''1'', ''2'']" "1 / 2"]
    AnalystMemo_bounds [of "''bear''" "''s''" "''r''" "''AAPL''"
      "[''1'', ''2'', ''3'', ''4'', ''5'']" 1]
    AnalystMemo_bounds [of "''bear''" "''s''" "''r''" "''AAPL''"
      "[''1'', ''2'', ''3'', ''4'', ''5'', ''6'']" "1 / 2"]
  show ?thesis by simp
qed

text \<open>
  C8, as the code has it. The list fields are constrained in their number of items
  only: with the other fields within their bounds, any \<^verbatim>\<open>key_points\<close> of three to five
  strings and any \<^verbatim>\<open>key_caveats\<close> of one to five strings are accepted and stored as they
  are, whatever the strings, the empty one included.
\<close>

theorem list_fields_constrain_count_only:
  "(p \<in> set PERSPECTIVES \<and> length s \<le> 500 \<and> length rr \<le> 300 \<and> 0 \<le> c \<and> c \<le> 1 \<and>
    3 \<le> length kps \<and> length kps \<le> 5 \<longrightarrow>
      AnalystMemo_new p t s kps rr c
        = Inr \<lparr>perspective = p, AnalystMemo.ticker = t, summary = s, key_points = kps,
               risk_reward_assessment = rr, confidence_in_thesis = c\<rparr>) \<and>
   (r \<in> set RECOMMENDATIONS \<and> 0 \<le> c' \<and> c' \<le> 1 \<and> length s' \<le> 600 \<and>
    1 \<le> length kc \<and> length kc \<le> 5 \<longrightarrow>
      SynthesizerOutput_new t' r c' s' kc
        = Inr \<lparr>SynthesizerOutput.ticker = t', SynthesizerOutput.recommendation = r,
               SynthesizerOutput.confidence_score = c',
               SynthesizerOutput.synthesis_summary = s',
               SynthesizerOutput.key_caveats = kc\<rparr>)"
  by (simp add: AnalystMemo_new_def SynthesizerOutput_new_def)

theorem list_fields_constrain_count_only_witness:
  "'''' \<in> set [''k1'', '''', ''k3''] \<and>
   AnalystMemo_new ''bull'' ''AAPL'' ''s'' [''k1'', '''', ''k3''] ''r'' (1 / 2)
     = Inr \<lparr>perspective = ''bull'', AnalystMemo.ticker = ''AAPL'', summary = ''s'',
            key_points = [''k1'', '''', ''k3''], risk_reward_assessment = ''r'',
            confidence_in_thesis = 1 / 2\<rparr> \<and>
   SynthesizerOutput_new ''AAPL'' ''SELL'' (1 / 4) ''s'' [''c1'', '''']
     = Inr \<lparr>SynthesizerOutput.ticker = ''AAPL'', SynthesizerOutput.recommendation = ''SELL'',
            SynthesizerOutput.confidence_score = 1 / 4,
            SynthesizerOutput.synthesis_summary = ''s'',
            SynthesizerOutput.key_caveats = [''c1'', '''']\<rparr>"
proof -
  have ok: "''bull'' \<in> set PERSPECTIVES" "''SELL'' \<in> set RECOMMENDATIONS"
    by (simp_all add: PERSPECTIVES_def RECOMMENDATIONS_def)
  from ok list_fields_constrain_count_only [of "''bull''" "''s''" "''r''" "1 / 2"
      "[''k1'', '''', ''k3'']" "''AAPL''" "''SELL''" "1 / 4" "''s''" "[''c1'', '''']" "''AAPL''"]
  show ?thesis by simp
qed

text \<open>Items need not be non-empty: a memo whose second key point is the empty string, and
  a synthesizer output whose only caveat is the empty string, both pass validation.\<close>

theorem empty_item_counterexample:
  "AnalystMemo_new ''bear'' ''AAPL'' ''s'' [''k1'', '''', ''k3''] ''r'' (1 / 2)
     = Inr \<lparr>perspective = ''bear'', AnalystMemo.ticker = ''AAPL'', summary = ''s'',
            key_points = [''k1'', '''', ''k3''], risk_reward_assessment = ''r'',
            confidence_in_thesis = 1 / 2\<rparr> \<and>
   SynthesizerOutput_new ''AAPL'' ''HOLD'' (1 / 2) ''s'' ['''']
     = Inr \<lparr>SynthesizerOutput.ticker = ''AAPL'', SynthesizerOutput.recommendation = ''HOLD'',
            SynthesizerOutput.confidence_score = 1 / 2,
            SynthesizerOutput.synthesis_summary = ''s'',
            SynthesizerOutput.key_caveats = ['''']\<rparr>"
  by (simp add: AnalystMemo_new_def SynthesizerOutput_new_def PERSPECTIVES_def
      RECOMMENDATIONS_def)

end
